theory Spec2Isabelle
  imports Main "HOL-Library.Sublist"
begin

section \<open>The chat endpoint (pages/api/chat.js) and its collaborators\<close>

text \<open>
  The handler of \<^verbatim>\<open>pages/api/chat.js\<close> is modelled as a function from the world before
  the request to the world after it. Every call to a collaborator (the identity provider,
  the rate limiter, the upstream generation service, Firestore, the console and the
  response object) is appended to a trace, in the order the awaits of the source run.
  What a collaborator answers is a parameter (the record \<open>env\<close>): the handler is
  verified for every behaviour of the services it calls. Each await of the source either
  yields a value or raises; an execution in which a collaborator never answers does not
  end, and the model describes the executions that end.
\<close>

subsection \<open>JavaScript values and exceptions\<close>

text \<open>
  A parsed JSON value. A JavaScript value that may also be \<^verbatim>\<open>undefined\<close> is a
  \<open>json option\<close>, with \<open>None\<close> for \<^verbatim>\<open>undefined\<close>. Numbers are kept as integers: the
  handler never computes with one.
\<close>

datatype json =
    JNull
  | JBool bool
  | JNum int
  | JStr string
  | JArr "json list"
  | JObj "(string \<times> json) list"

text \<open>
  What a \<^verbatim>\<open>throw\<close> carries: the \<^verbatim>\<open>TypeError\<close> of the language itself (reading a
  property of \<^verbatim>\<open>null\<close> or \<^verbatim>\<open>undefined\<close>), or whatever a collaborator rejects with.
\<close>

datatype js_error = TypeError | Thrown string

text \<open>
  Reading the property \<^verbatim>\<open>x.k\<close> of a JSON value, for the two keys the handler reads
  (\<^verbatim>\<open>message\<close> and \<^verbatim>\<open>answer\<close>, which no prototype defines): \<^verbatim>\<open>null\<close> raises, an object
  gives its own property or \<^verbatim>\<open>undefined\<close>, every other value gives \<^verbatim>\<open>undefined\<close>.
\<close>

fun get_prop :: "json \<Rightarrow> string \<Rightarrow> js_error + json option" where
  "get_prop JNull k = Inl TypeError"
| "get_prop (JObj kvs) k = Inr (map_of kvs k)"
| "get_prop v k = Inr None"

text \<open>
  \<^verbatim>\<open>s.split(sep)\<close> for a non-empty separator: the pieces of \<open>s\<close> between the
  occurrences of \<open>sep\<close>, scanned from the left. \<open>cur\<close> is the piece being read, reversed.
\<close>

function split_from :: "string \<Rightarrow> string \<Rightarrow> string \<Rightarrow> string list" where
  "split_from sep cur [] = [rev cur]"
| "split_from sep cur (c # cs) =
     (if sep \<noteq> [] \<and> prefix sep (c # cs)
      then rev cur # split_from sep [] (drop (length sep) (c # cs))
      else split_from sep (c # cur) cs)"
  by pat_completeness auto
termination
  by (relation "measure (\<lambda>(sep, cur, rest). length rest)") auto

definition split :: "string \<Rightarrow> string \<Rightarrow> string list" where
  "split s sep = split_from sep [] s"

text \<open>\<^verbatim>\<open>xs[i]\<close> on an array: \<^verbatim>\<open>undefined\<close> out of range.\<close>

definition index :: "'a list \<Rightarrow> nat \<Rightarrow> 'a option" where
  "index xs i = (if i < length xs then Some (xs ! i) else None)"

subsection \<open>The request, the collaborators' answers and the world\<close>

text \<open>
  The fields of \<^verbatim>\<open>req\<close> the handler reads: \<^verbatim>\<open>req.method\<close>,
  \<^verbatim>\<open>req.headers.authorization\<close> (absent: \<open>None\<close>) and \<^verbatim>\<open>req.body\<close>
  (\<^verbatim>\<open>undefined\<close>: \<open>None\<close>; a JSON body \<^verbatim>\<open>null\<close> parses to \<open>Some JNull\<close>).
\<close>

record request =
  req_method :: string
  req_authorization :: "string option"
  req_body :: "json option"

text \<open>The decoded token of \<^verbatim>\<open>verifyIdToken\<close>; the handler reads \<^verbatim>\<open>uid\<close>.\<close>

record decoded_token =
  uid :: string

text \<open>The answer of \<^verbatim>\<open>rateLimiter.limit\<close>; the handler reads \<^verbatim>\<open>success\<close>.\<close>

record limiter_res =
  success :: bool
  remaining :: nat

text \<open>
  The two arguments of \<^verbatim>\<open>fetch\<close>. The body is the value given to \<^verbatim>\<open>JSON.stringify\<close>,
  with the properties whose value is \<^verbatim>\<open>undefined\<close> already left out, as
  \<^verbatim>\<open>JSON.stringify\<close> does.
\<close>

record fetch_init =
  fetch_url :: string
  fetch_method :: string
  fetch_headers :: "(string \<times> string) list"
  fetch_body :: json

text \<open>
  The \<^verbatim>\<open>Response\<close> that \<^verbatim>\<open>fetch\<close> resolves to: its HTTP status, and what
  \<^verbatim>\<open>await difyResponse.json()\<close> does (it raises on a body that is not JSON).
\<close>

record fetch_response =
  resp_status :: nat
  resp_json :: "js_error + json"

datatype field_value = ServerTimestamp

text \<open>The document that \<^verbatim>\<open>saveChatToFirestore\<close> gives to \<^verbatim>\<open>addDoc\<close>.\<close>

record chat_doc =
  doc_userId :: string
  doc_message :: "json option"
  doc_response :: "json option"
  doc_timestamp :: field_value

text \<open>The shared counters of the rate limiter, one per key.\<close>

type_synonym rate_store = "string \<Rightarrow> nat"

text \<open>
  The collaborators. \<open>verifyIdToken\<close>, \<open>fetch\<close> and \<open>addDoc\<close> are called at most once
  in a request, so their answer is a function of their argument (\<open>addDoc\<close>: \<open>None\<close>
  when the write is accepted, \<open>Some e\<close> when it is rejected with \<open>e\<close>).
  \<open>rateLimiter_limit\<close> also transforms the shared counters.
  \<open>DIFY_API_KEY\<close> is \<^verbatim>\<open>process.env.DIFY_API_KEY\<close>.
\<close>

record env =
  verifyIdToken :: "string option \<Rightarrow> js_error + decoded_token"
  rateLimiter_limit :: "string \<Rightarrow> rate_store \<Rightarrow> (js_error + limiter_res) \<times> rate_store"
  fetch :: "fetch_init \<Rightarrow> js_error + fetch_response"
  addDoc :: "chat_doc \<Rightarrow> js_error option"
  DIFY_API_KEY :: "string option"

datatype event =
    CallVerifyIdToken "string option"
  | CallLimit string
  | CallFetch fetch_init
  | CallAddDoc chat_doc
  | ConsoleError string js_error
  | Respond nat json

text \<open>
  The world: the trace of calls so far, the rate limiter's counters and the documents of
  the \<^verbatim>\<open>chats\<close> collection.
\<close>

record world =
  trace :: "event list"
  rate_store :: rate_store
  chats :: "chat_doc list"

subsection \<open>Awaited computations: state and exceptions\<close>

type_synonym 'a io = "world \<Rightarrow> (js_error + 'a) \<times> world"

text \<open>Sequencing: an exception skips the rest.\<close>

definition io_bind :: "'a io \<Rightarrow> ('a \<Rightarrow> 'b io) \<Rightarrow> 'b io" where
  "io_bind m f w = (case m w of (Inl e, w') \<Rightarrow> (Inl e, w') | (Inr x, w') \<Rightarrow> f x w')"

text \<open>\<^verbatim>\<open>try { m } catch (error) { h error }\<close>\<close>

definition io_catch :: "'a io \<Rightarrow> (js_error \<Rightarrow> 'a io) \<Rightarrow> 'a io" where
  "io_catch m h w = (case m w of (Inl e, w') \<Rightarrow> h e w' | (Inr x, w') \<Rightarrow> (Inr x, w'))"

definition io_of :: "js_error + 'a \<Rightarrow> 'a io" where
  "io_of r w = (r, w)"

definition emit :: "event \<Rightarrow> world \<Rightarrow> world" where
  "emit ev w = w\<lparr>trace := trace w @ [ev]\<rparr>"

subsection \<open>Calls to the collaborators\<close>

definition call_verifyIdToken :: "env \<Rightarrow> string option \<Rightarrow> decoded_token io" where
  "call_verifyIdToken e token w = (verifyIdToken e token, emit (CallVerifyIdToken token) w)"

definition call_limit :: "env \<Rightarrow> string \<Rightarrow> limiter_res io" where
  "call_limit e key w =
     (case rateLimiter_limit e key (rate_store w) of
        (r, rs) \<Rightarrow> (r, (emit (CallLimit key) w)\<lparr>rate_store := rs\<rparr>))"

definition call_fetch :: "env \<Rightarrow> fetch_init \<Rightarrow> fetch_response io" where
  "call_fetch e init w = (fetch e init, emit (CallFetch init) w)"

text \<open>
  A write that Firestore accepts appends the document; a rejected one changes nothing.
  Whatever is raised inside the \<^verbatim>\<open>try\<close> block of \<^verbatim>\<open>saveChatToFirestore\<close> (by
  \<^verbatim>\<open>collection\<close>, \<^verbatim>\<open>serverTimestamp\<close> or \<^verbatim>\<open>addDoc\<close>) is a rejected write.
\<close>

definition call_addDoc :: "env \<Rightarrow> chat_doc \<Rightarrow> unit io" where
  "call_addDoc e doc w =
     (case addDoc e doc of
        None \<Rightarrow> (Inr (), (emit (CallAddDoc doc) w)\<lparr>chats := chats w @ [doc]\<rparr>)
      | Some err \<Rightarrow> (Inl err, emit (CallAddDoc doc) w))"

definition console_error :: "string \<Rightarrow> js_error \<Rightarrow> unit io" where
  "console_error label err w = (Inr (), emit (ConsoleError label err) w)"

text \<open>\<^verbatim>\<open>res.status(code).json(body)\<close>\<close>

definition res_status_json :: "nat \<Rightarrow> json \<Rightarrow> unit io" where
  "res_status_json code body w = (Inr (), emit (Respond code body) w)"

definition error_body :: "string \<Rightarrow> json" where
  "error_body msg = JObj [(''error'', JStr msg)]"

subsection \<open>utils/firestoreUtils.js\<close>

text \<open>The object literal given to \<^verbatim>\<open>addDoc\<close>.\<close>

definition chat_record :: "string \<Rightarrow> json option \<Rightarrow> json option \<Rightarrow> chat_doc" where
  "chat_record userId message response =
     \<lparr>doc_userId = userId, doc_message = message, doc_response = response,
      doc_timestamp = ServerTimestamp\<rparr>"

definition saveChatToFirestore :: "env \<Rightarrow> string \<Rightarrow> json option \<Rightarrow> json option \<Rightarrow> unit io" where
  "saveChatToFirestore e userId message response =
     io_catch
       (call_addDoc e (chat_record userId message response))
       (\<lambda>error. console_error ''Error saving chat to Firestore:'' error)"

subsection \<open>pages/api/chat.js\<close>

text \<open>\<^verbatim>\<open>req.headers.authorization?.split('Bearer ')[1]\<close>\<close>

definition bearer_token :: "request \<Rightarrow> string option" where
  "bearer_token req =
     (case req_authorization req of
        None \<Rightarrow> None
      | Some a \<Rightarrow> index (split a ''Bearer '') 1)"

text \<open>\<^verbatim>\<open>const { message } = req.body\<close>: raises on \<^verbatim>\<open>undefined\<close> and on \<^verbatim>\<open>null\<close>.\<close>

definition destructure_message :: "json option \<Rightarrow> js_error + json option" where
  "destructure_message b = (case b of None \<Rightarrow> Inl TypeError | Some v \<Rightarrow> get_prop v ''message'')"

text \<open>The second argument of the \<^verbatim>\<open>fetch\<close> call.\<close>

definition dify_request :: "env \<Rightarrow> string \<Rightarrow> json option \<Rightarrow> fetch_init" where
  "dify_request e userId message =
     \<lparr>fetch_url = ''YOUR_DIFY_API_URL'',
      fetch_method = ''POST'',
      fetch_headers =
        [(''Authorization'',
          ''Bearer '' @ (case DIFY_API_KEY e of None \<Rightarrow> ''undefined'' | Some k \<Rightarrow> k)),
         (''Content-Type'', ''application/json'')],
      fetch_body =
        JObj ((case message of None \<Rightarrow> [] | Some m \<Rightarrow> [(''query'', m)])
              @ [(''user'', JStr userId)])\<rparr>"

text \<open>The body of the \<^verbatim>\<open>try\<close> block.\<close>

definition handler_try :: "env \<Rightarrow> request \<Rightarrow> unit io" where
  "handler_try e req =
     io_bind (call_verifyIdToken e (bearer_token req)) (\<lambda>decodedToken.
     let userId = uid decodedToken in
     io_bind (call_limit e userId) (\<lambda>limiterRes.
     if \<not> success limiterRes
     then res_status_json 429 (error_body ''Rate limit exceeded'')
     else
       io_bind (io_of (destructure_message (req_body req))) (\<lambda>message.
       io_bind (call_fetch e (dify_request e userId message)) (\<lambda>difyResponse.
       io_bind (io_of (resp_json difyResponse)) (\<lambda>difyData.
       io_bind (io_of (get_prop difyData ''answer'')) (\<lambda>answer.
       io_bind (saveChatToFirestore e userId message answer) (\<lambda>_.
       res_status_json 200 difyData)))))))"

definition handler :: "env \<Rightarrow> request \<Rightarrow> unit io" where
  "handler e req =
     (if req_method req \<noteq> ''POST''
      then res_status_json 405 (error_body ''Method not allowed'')
      else
        io_catch (handler_try e req)
          (\<lambda>error.
             io_bind (console_error ''Error in chat API:'' error) (\<lambda>_.
             res_status_json 500 (error_body ''Internal server error''))))"

subsection \<open>What an execution did\<close>

text \<open>The world after the handler has run, and the events the run added to the trace.\<close>

definition run :: "env \<Rightarrow> request \<Rightarrow> world \<Rightarrow> world" where
  "run e req w = snd (handler e req w)"

definition new_events :: "env \<Rightarrow> request \<Rightarrow> world \<Rightarrow> event list" where
  "new_events e req w = drop (length (trace w)) (trace (run e req w))"

fun is_verify :: "event \<Rightarrow> bool" where
  "is_verify (CallVerifyIdToken _) = True"
| "is_verify _ = False"

fun is_limit :: "event \<Rightarrow> bool" where
  "is_limit (CallLimit _) = True"
| "is_limit _ = False"

fun is_relay :: "event \<Rightarrow> bool" where
  "is_relay (CallFetch _) = True"
| "is_relay _ = False"

fun is_record :: "event \<Rightarrow> bool" where
  "is_record (CallAddDoc _) = True"
| "is_record _ = False"

fun is_response :: "event \<Rightarrow> bool" where
  "is_response (Respond _ _) = True"
| "is_response _ = False"

text \<open>The statuses of the responses sent, in order.\<close>

fun statuses :: "event list \<Rightarrow> nat list" where
  "statuses [] = []"
| "statuses (Respond code body # evs) = code # statuses evs"
| "statuses (ev # evs) = statuses evs"

text \<open>What the \<^verbatim>\<open>catch\<close> block of the handler does with the error it caught.\<close>

definition internal_error :: "js_error \<Rightarrow> event list" where
  "internal_error err =
     [ConsoleError ''Error in chat API:'' err,
      Respond 500 (error_body ''Internal server error'')]"

text \<open>
  What the two awaits of the relay give together, \<^verbatim>\<open>fetch\<close> and then
  \<^verbatim>\<open>difyResponse.json()\<close>: the error one of them raised, or the parsed body. The HTTP
  status of the response is not read.
\<close>

definition relay_outcome :: "js_error + fetch_response \<Rightarrow> js_error + json" where
  "relay_outcome r = (case r of Inl err \<Rightarrow> Inl err | Inr difyResponse \<Rightarrow> resp_json difyResponse)"

text \<open>The two rejections of the data model: the verify step raises, admission is denied.\<close>

definition unauthenticated :: "env \<Rightarrow> request \<Rightarrow> bool" where
  "unauthenticated e req = isl (verifyIdToken e (bearer_token req))"

definition rate_limited :: "env \<Rightarrow> request \<Rightarrow> world \<Rightarrow> bool" where
  "rate_limited e req w =
     (case verifyIdToken e (bearer_token req) of
        Inl err \<Rightarrow> False
      | Inr decodedToken \<Rightarrow>
          (case fst (rateLimiter_limit e (uid decodedToken) (rate_store w)) of
             Inl err \<Rightarrow> False
           | Inr limiterRes \<Rightarrow> \<not> success limiterRes))"

subsection \<open>utils/rateLimiter.js\<close>

text \<open>
  Modelled from the spec: the counter behind \<^verbatim>\<open>rateLimiter.limit\<close> (the class
  \<^verbatim>\<open>Ratelimit\<close> of the package @upstash/ratelimit and its Redis store) is not in the
  repository. Section 4.2 of the specification: every call of \<open>admit\<close> increments the
  subject's shared counter, whether the call is allowed or denied, and the call is
  allowed while the count stays within the quota. The passing of the window is not
  modelled: the store holds the counts of the current window.
\<close>

definition slidingWindow_limit :: "nat \<Rightarrow> string \<Rightarrow> rate_store \<Rightarrow> (js_error + limiter_res) \<times> rate_store" where
  "slidingWindow_limit tokens key rs =
     (let n = rs key + 1
      in (Inr \<lparr>success = (n \<le> tokens), remaining = tokens - n\<rparr>, rs(key := n)))"

subsection \<open>Collaborators with fixed answers, and concrete requests\<close>

text \<open>
  Test doubles: a verifier, a limiter, an upstream and a store that answer the same
  whatever they are given. The limiter leaves the counters alone.
\<close>

definition stub_env ::
  "js_error + decoded_token \<Rightarrow> bool \<Rightarrow> js_error + fetch_response \<Rightarrow> js_error option \<Rightarrow> env" where
  "stub_env v ok f a =
     \<lparr>verifyIdToken = (\<lambda>token. v),
      rateLimiter_limit = (\<lambda>key rs. (Inr \<lparr>success = ok, remaining = 0\<rparr>, rs)),
      fetch = (\<lambda>init. f),
      addDoc = (\<lambda>doc. a),
      DIFY_API_KEY = Some ''secret''\<rparr>"

definition u1 :: decoded_token where
  "u1 = \<lparr>uid = ''u1''\<rparr>"

text \<open>An upstream that answers 200 with \<^verbatim>\<open>{"answer": "hi"}\<close>.\<close>

definition upstream_hi :: "js_error + fetch_response" where
  "upstream_hi = Inr \<lparr>resp_status = 200, resp_json = Inr (JObj [(''answer'', JStr ''hi'')])\<rparr>"

text \<open>An upstream that answers 500 with \<^verbatim>\<open>{"error": "overloaded"}\<close>.\<close>

definition upstream_overloaded :: "js_error + fetch_response" where
  "upstream_overloaded =
     Inr \<lparr>resp_status = 500, resp_json = Inr (JObj [(''error'', JStr ''overloaded'')])\<rparr>"

text \<open>A POST with the body \<^verbatim>\<open>{"message": "hello"}\<close> and the given Authorization header.\<close>

definition post_hello :: "string option \<Rightarrow> request" where
  "post_hello auth =
     \<lparr>req_method = ''POST'', req_authorization = auth,
      req_body = Some (JObj [(''message'', JStr ''hello'')])\<rparr>"

text \<open>An authenticated POST with the given body.\<close>

definition post_body :: "json option \<Rightarrow> request" where
  "post_body b =
     \<lparr>req_method = ''POST'', req_authorization = Some ''Bearer tok'', req_body = b\<rparr>"

definition get_request :: request where
  "get_request = \<lparr>req_method = ''GET'', req_authorization = None, req_body = None\<rparr>"

text \<open>No call made yet, every counter at zero, an empty collection.\<close>

definition w0 :: world where
  "w0 = \<lparr>trace = [], rate_store = (\<lambda>key. 0), chats = []\<rparr>"

text \<open>The same, with the counter of \<^verbatim>\<open>u1\<close> at \<open>n\<close>.\<close>

definition w_count :: "nat \<Rightarrow> world" where
  "w_count n = \<lparr>trace = [], rate_store = (\<lambda>key. if key = ''u1'' then n else 0), chats = []\<rparr>"

section \<open>The paths of the handler\<close>

lemmas io_defs = io_bind_def io_catch_def io_of_def emit_def
  call_verifyIdToken_def call_limit_def call_fetch_def call_addDoc_def console_error_def
  res_status_json_def saveChatToFirestore_def

lemmas run_defs = run_def handler_def handler_try_def Let_def

lemmas stub_defs = stub_env_def u1_def upstream_hi_def upstream_overloaded_def
  post_hello_def post_body_def get_request_def w0_def w_count_def

lemmas token_defs = bearer_token_def split_def index_def

text \<open>One lemma for each way through the source, from the first line to the response.\<close>

lemma run_not_post:
  assumes "req_method req \<noteq> ''POST''"
  shows "run e req w = w\<lparr>trace := trace w @ [Respond 405 (error_body ''Method not allowed'')]\<rparr>"
  using assms by (simp add: run_defs io_defs)

lemma run_verify_raises:
  assumes "req_method req = ''POST''"
    and "verifyIdToken e (bearer_token req) = Inl err"
  shows "run e req w =
    w\<lparr>trace := trace w @ CallVerifyIdToken (bearer_token req) # internal_error err\<rparr>"
  using assms by (simp add: run_defs io_defs internal_error_def)

lemma run_limit_raises:
  assumes "req_method req = ''POST''"
    and "verifyIdToken e (bearer_token req) = Inr d"
    and "rateLimiter_limit e (uid d) (rate_store w) = (Inl err, rs)"
  shows "run e req w =
    w\<lparr>trace := trace w @ CallVerifyIdToken (bearer_token req) # CallLimit (uid d)
           # internal_error err,
      rate_store := rs\<rparr>"
  using assms by (simp add: run_defs io_defs internal_error_def)

lemma run_denied:
  assumes "req_method req = ''POST''"
    and "verifyIdToken e (bearer_token req) = Inr d"
    and "rateLimiter_limit e (uid d) (rate_store w) = (Inr lr, rs)"
    and "\<not> success lr"
  shows "run e req w =
    w\<lparr>trace := trace w @ [CallVerifyIdToken (bearer_token req), CallLimit (uid d),
           Respond 429 (error_body ''Rate limit exceeded'')],
      rate_store := rs\<rparr>"
  using assms by (simp add: run_defs io_defs)

lemma run_body_raises:
  assumes "req_method req = ''POST''"
    and "verifyIdToken e (bearer_token req) = Inr d"
    and "rateLimiter_limit e (uid d) (rate_store w) = (Inr lr, rs)"
    and "success lr"
    and "destructure_message (req_body req) = Inl err"
  shows "run e req w =
    w\<lparr>trace := trace w @ CallVerifyIdToken (bearer_token req) # CallLimit (uid d)
           # internal_error err,
      rate_store := rs\<rparr>"
  using assms by (simp add: run_defs io_defs internal_error_def)

lemma run_fetch_raises:
  assumes "req_method req = ''POST''"
    and "verifyIdToken e (bearer_token req) = Inr d"
    and "rateLimiter_limit e (uid d) (rate_store w) = (Inr lr, rs)"
    and "success lr"
    and "destructure_message (req_body req) = Inr message"
    and "fetch e (dify_request e (uid d) message) = Inl err"
  shows "run e req w =
    w\<lparr>trace := trace w @ CallVerifyIdToken (bearer_token req) # CallLimit (uid d)
           # CallFetch (dify_request e (uid d) message) # internal_error err,
      rate_store := rs\<rparr>"
  using assms by (simp add: run_defs io_defs internal_error_def)

lemma run_json_raises:
  assumes "req_method req = ''POST''"
    and "verifyIdToken e (bearer_token req) = Inr d"
    and "rateLimiter_limit e (uid d) (rate_store w) = (Inr lr, rs)"
    and "success lr"
    and "destructure_message (req_body req) = Inr message"
    and "fetch e (dify_request e (uid d) message) = Inr difyResponse"
    and "resp_json difyResponse = Inl err"
  shows "run e req w =
    w\<lparr>trace := trace w @ CallVerifyIdToken (bearer_token req) # CallLimit (uid d)
           # CallFetch (dify_request e (uid d) message) # internal_error err,
      rate_store := rs\<rparr>"
  using assms by (simp add: run_defs io_defs internal_error_def)

lemma run_answer_raises:
  assumes "req_method req = ''POST''"
    and "verifyIdToken e (bearer_token req) = Inr d"
    and "rateLimiter_limit e (uid d) (rate_store w) = (Inr lr, rs)"
    and "success lr"
    and "destructure_message (req_body req) = Inr message"
    and "fetch e (dify_request e (uid d) message) = Inr difyResponse"
    and "resp_json difyResponse = Inr difyData"
    and "get_prop difyData ''answer'' = Inl err"
  shows "run e req w =
    w\<lparr>trace := trace w @ CallVerifyIdToken (bearer_token req) # CallLimit (uid d)
           # CallFetch (dify_request e (uid d) message) # internal_error err,
      rate_store := rs\<rparr>"
  using assms by (simp add: run_defs io_defs internal_error_def)

lemma run_saved:
  assumes "req_method req = ''POST''"
    and "verifyIdToken e (bearer_token req) = Inr d"
    and "rateLimiter_limit e (uid d) (rate_store w) = (Inr lr, rs)"
    and "success lr"
    and "destructure_message (req_body req) = Inr message"
    and "fetch e (dify_request e (uid d) message) = Inr difyResponse"
    and "resp_json difyResponse = Inr difyData"
    and "get_prop difyData ''answer'' = Inr answer"
    and "addDoc e (chat_record (uid d) message answer) = None"
  shows "run e req w =
    w\<lparr>trace := trace w @ [CallVerifyIdToken (bearer_token req), CallLimit (uid d),
           CallFetch (dify_request e (uid d) message),
           CallAddDoc (chat_record (uid d) message answer),
           Respond 200 difyData],
      rate_store := rs,
      chats := chats w @ [chat_record (uid d) message answer]\<rparr>"
  using assms by (simp add: run_defs io_defs)

lemma run_save_raises:
  assumes "req_method req = ''POST''"
    and "verifyIdToken e (bearer_token req) = Inr d"
    and "rateLimiter_limit e (uid d) (rate_store w) = (Inr lr, rs)"
    and "success lr"
    and "destructure_message (req_body req) = Inr message"
    and "fetch e (dify_request e (uid d) message) = Inr difyResponse"
    and "resp_json difyResponse = Inr difyData"
    and "get_prop difyData ''answer'' = Inr answer"
    and "addDoc e (chat_record (uid d) message answer) = Some err"
  shows "run e req w =
    w\<lparr>trace := trace w @ [CallVerifyIdToken (bearer_token req), CallLimit (uid d),
           CallFetch (dify_request e (uid d) message),
           CallAddDoc (chat_record (uid d) message answer),
           ConsoleError ''Error saving chat to Firestore:'' err,
           Respond 200 difyData],
      rate_store := rs\<rparr>"
  using assms by (simp add: run_defs io_defs)

text \<open>
  Every execution takes one of these paths. The three errors raised after the
  \<^verbatim>\<open>fetch\<close> call (by \<^verbatim>\<open>fetch\<close>, by \<^verbatim>\<open>json()\<close>, by reading \<^verbatim>\<open>answer\<close> of
  \<^verbatim>\<open>null\<close>) leave the same trace and share a case.
\<close>

lemma run_cases:
  obtains
    (not_post)
      "req_method req \<noteq> ''POST''"
      "run e req w = w\<lparr>trace := trace w @ [Respond 405 (error_body ''Method not allowed'')]\<rparr>"
  | (verify_raises) err where
      "req_method req = ''POST''"
      "verifyIdToken e (bearer_token req) = Inl err"
      "run e req w =
         w\<lparr>trace := trace w @ CallVerifyIdToken (bearer_token req) # internal_error err\<rparr>"
  | (limit_raises) d err rs where
      "req_method req = ''POST''"
      "verifyIdToken e (bearer_token req) = Inr d"
      "rateLimiter_limit e (uid d) (rate_store w) = (Inl err, rs)"
      "run e req w =
         w\<lparr>trace := trace w @ CallVerifyIdToken (bearer_token req) # CallLimit (uid d)
                # internal_error err,
           rate_store := rs\<rparr>"
  | (denied) d lr rs where
      "req_method req = ''POST''"
      "verifyIdToken e (bearer_token req) = Inr d"
      "rateLimiter_limit e (uid d) (rate_store w) = (Inr lr, rs)"
      "\<not> success lr"
      "run e req w =
         w\<lparr>trace := trace w @ [CallVerifyIdToken (bearer_token req), CallLimit (uid d),
                Respond 429 (error_body ''Rate limit exceeded'')],
           rate_store := rs\<rparr>"
  | (not_relayed) d lr rs err where
      "req_method req = ''POST''"
      "verifyIdToken e (bearer_token req) = Inr d"
      "rateLimiter_limit e (uid d) (rate_store w) = (Inr lr, rs)"
      "success lr"
      "run e req w =
         w\<lparr>trace := trace w @ CallVerifyIdToken (bearer_token req) # CallLimit (uid d)
                # internal_error err,
           rate_store := rs\<rparr>"
  | (relay_raises) d lr rs message err where
      "req_method req = ''POST''"
      "verifyIdToken e (bearer_token req) = Inr d"
      "rateLimiter_limit e (uid d) (rate_store w) = (Inr lr, rs)"
      "success lr"
      "run e req w =
         w\<lparr>trace := trace w @ CallVerifyIdToken (bearer_token req) # CallLimit (uid d)
                # CallFetch (dify_request e (uid d) message) # internal_error err,
           rate_store := rs\<rparr>"
  | (saved) d lr rs message difyData answer where
      "req_method req = ''POST''"
      "verifyIdToken e (bearer_token req) = Inr d"
      "rateLimiter_limit e (uid d) (rate_store w) = (Inr lr, rs)"
      "success lr"
      "run e req w =
         w\<lparr>trace := trace w @ [CallVerifyIdToken (bearer_token req), CallLimit (uid d),
                CallFetch (dify_request e (uid d) message),
                CallAddDoc (chat_record (uid d) message answer),
                Respond 200 difyData],
           rate_store := rs,
           chats := chats w @ [chat_record (uid d) message answer]\<rparr>"
  | (save_raises) d lr rs message difyData answer err where
      "req_method req = ''POST''"
      "verifyIdToken e (bearer_token req) = Inr d"
      "rateLimiter_limit e (uid d) (rate_store w) = (Inr lr, rs)"
      "success lr"
      "run e req w =
         w\<lparr>trace := trace w @ [CallVerifyIdToken (bearer_token req), CallLimit (uid d),
                CallFetch (dify_request e (uid d) message),
                CallAddDoc (chat_record (uid d) message answer),
                ConsoleError ''Error saving chat to Firestore:'' err,
                Respond 200 difyData],
           rate_store := rs\<rparr>"
proof (cases "req_method req = ''POST''")
  case False
  then show thesis
    using not_post run_not_post by blast
next
  case post: True
  show thesis
  proof (cases "verifyIdToken e (bearer_token req)")
    case (Inl err)
    then show thesis
      using verify_raises post run_verify_raises by blast
  next
    case verified: (Inr d)
    obtain r rs where lim: "rateLimiter_limit e (uid d) (rate_store w) = (r, rs)"
      by (cases "rateLimiter_limit e (uid d) (rate_store w)")
    show thesis
    proof (cases r)
      case (Inl err)
      then show thesis
        using limit_raises post verified lim run_limit_raises by blast
    next
      case (Inr lr)
      with lim have lim': "rateLimiter_limit e (uid d) (rate_store w) = (Inr lr, rs)"
        by simp
      show thesis
      proof (cases "success lr")
        case False
        then show thesis
          using denied post verified lim' run_denied by blast
      next
        case admitted: True
        note pre = post verified lim' admitted
        show thesis
        proof (cases "destructure_message (req_body req)")
          case (Inl err)
          then show thesis
            using not_relayed pre run_body_raises by blast
        next
          case body: (Inr message)
          show thesis
          proof (cases "fetch e (dify_request e (uid d) message)")
            case (Inl err)
            then show thesis
              using relay_raises pre body run_fetch_raises by blast
          next
            case fetched: (Inr difyResponse)
            show thesis
            proof (cases "resp_json difyResponse")
              case (Inl err)
              then show thesis
                using relay_raises pre body fetched run_json_raises by blast
            next
              case parsed: (Inr difyData)
              show thesis
              proof (cases "get_prop difyData ''answer''")
                case (Inl err)
                then show thesis
                  using relay_raises pre body fetched parsed run_answer_raises by blast
              next
                case ans: (Inr answer)
                show thesis
                proof (cases "addDoc e (chat_record (uid d) message answer)")
                  case None
                  then show thesis
                    using saved pre body fetched parsed ans run_saved by blast
                next
                  case (Some err)
                  then show thesis
                    using save_raises pre body fetched parsed ans run_save_raises by blast
                qed
              qed
            qed
          qed
        qed
      qed
    qed
  qed
qed

text \<open>The handler only appends to the trace.\<close>

lemma trace_run: "trace (run e req w) = trace w @ new_events e req w"
  by (cases rule: run_cases [of req e w]) (simp_all add: new_events_def)

text \<open>
  After a verification that succeeds, the limiter is called once, with the subject as
  key, and the counters are the ones that call left: nothing later touches them.
\<close>

lemma run_limit_once:
  assumes "req_method req = ''POST''"
    and "verifyIdToken e (bearer_token req) = Inr d"
  shows "rate_store (run e req w) = snd (rateLimiter_limit e (uid d) (rate_store w))
    \<and> filter is_limit (new_events e req w) = [CallLimit (uid d)]"
  using assms
  by (cases rule: run_cases [of req e w]) (simp_all add: new_events_def internal_error_def)

text \<open>
  \<^verbatim>\<open>const { message } = req.body\<close> raises exactly on a body that is \<^verbatim>\<open>undefined\<close> or
  \<^verbatim>\<open>null\<close>.
\<close>

lemma destructure_message_raises_iff:
  "isl (destructure_message b) \<longleftrightarrow> b = None \<or> b = Some JNull"
proof (cases b)
  case None
  then show ?thesis by (simp add: destructure_message_def)
next
  case (Some v)
  then show ?thesis by (cases v) (simp_all add: destructure_message_def)
qed


section \<open>The claims\<close>

subsection \<open>C1: a credential that does not verify\<close>

text \<open>
  C1 as stated, that a POST whose credential fails verification is answered with status
  401, fails: the handler has no 401 response. The error raised by the verify step is
  caught by the one \<^verbatim>\<open>catch\<close> block of the handler, which answers 500. Here the
  Authorization header is missing, the token given to the verifier is \<^verbatim>\<open>undefined\<close>,
  the verifier raises, and the status sent is 500.
\<close>

theorem unverified_not_401_counterexample:
  "req_method (post_hello None) = ''POST''
   \<and> bearer_token (post_hello None) = None
   \<and> verifyIdToken (stub_env (Inl (Thrown ''auth/argument-error'')) True upstream_hi None)
        (bearer_token (post_hello None)) = Inl (Thrown ''auth/argument-error'')
   \<and> statuses (new_events (stub_env (Inl (Thrown ''auth/argument-error'')) True upstream_hi None)
        (post_hello None) w0) = [500]
   \<and> statuses (new_events (stub_env (Inl (Thrown ''auth/argument-error'')) True upstream_hi None)
        (post_hello None) w0) \<noteq> [401]"
  by (simp add: new_events_def run_defs io_defs stub_defs token_defs)

text \<open>
  C1, amended. For every POST request whose bearer credential is missing, malformed or
  fails verification (the verify step raises), the handler responds with status 500 and
  the generic body, after logging the error, and performs no admission check, no relay
  call and no record write.
\<close>

theorem unverified_responds_500:
  assumes "req_method req = ''POST''"
    and "verifyIdToken e (bearer_token req) = Inl err"
  shows "new_events e req w =
      [CallVerifyIdToken (bearer_token req),
       ConsoleError ''Error in chat API:'' err,
       Respond 500 (error_body ''Internal server error'')]
    \<and> statuses (new_events e req w) = [500]
    \<and> filter is_limit (new_events e req w) = []
    \<and> filter is_relay (new_events e req w) = []
    \<and> filter is_record (new_events e req w) = []
    \<and> rate_store (run e req w) = rate_store w
    \<and> chats (run e req w) = chats w"
  using assms by (simp add: new_events_def run_verify_raises internal_error_def)

theorem unverified_responds_500_witness:
  "req_method (post_hello (Some ''Basic dXNlcg=='')) = ''POST''
   \<and> bearer_token (post_hello (Some ''Basic dXNlcg=='')) = None
   \<and> new_events (stub_env (Inl (Thrown ''auth/argument-error'')) True upstream_hi None)
        (post_hello (Some ''Basic dXNlcg=='')) w0 =
      [CallVerifyIdToken None,
       ConsoleError ''Error in chat API:'' (Thrown ''auth/argument-error''),
       Respond 500 (JObj [(''error'', JStr ''Internal server error'')])]"
  using unverified_responds_500 [of "post_hello (Some ''Basic dXNlcg=='')"
      "stub_env (Inl (Thrown ''auth/argument-error'')) True upstream_hi None"
      "Thrown ''auth/argument-error''" w0]
  by (simp add: stub_defs token_defs error_body_def)

subsection \<open>C2: a relay that fails\<close>

text \<open>
  C2 as stated fails for an upstream that returns a non-success HTTP status: the handler
  never reads the status of the response. Here the upstream answers 500 with the JSON
  body \<^verbatim>\<open>{"error": "overloaded"}\<close>; the handler reads \<^verbatim>\<open>answer\<close> of it
  (\<^verbatim>\<open>undefined\<close>), runs the record step with that, and responds 200 with the
  upstream's body.
\<close>

theorem upstream_status_ignored_counterexample:
  "fetch (stub_env (Inr u1) True upstream_overloaded (Some (Thrown ''invalid-argument'')))
      (dify_request (stub_env (Inr u1) True upstream_overloaded (Some (Thrown ''invalid-argument'')))
         ''u1'' (Some (JStr ''hello'')))
     = Inr \<lparr>resp_status = 500, resp_json = Inr (JObj [(''error'', JStr ''overloaded'')])\<rparr>
   \<and> statuses (new_events
        (stub_env (Inr u1) True upstream_overloaded (Some (Thrown ''invalid-argument'')))
        (post_hello (Some ''Bearer tok'')) w0) = [200]
   \<and> filter is_response (new_events
        (stub_env (Inr u1) True upstream_overloaded (Some (Thrown ''invalid-argument'')))
        (post_hello (Some ''Bearer tok'')) w0)
     = [Respond 200 (JObj [(''error'', JStr ''overloaded'')])]
   \<and> filter is_record (new_events
        (stub_env (Inr u1) True upstream_overloaded (Some (Thrown ''invalid-argument'')))
        (post_hello (Some ''Bearer tok'')) w0)
     = [CallAddDoc (chat_record ''u1'' (Some (JStr ''hello'')) None)]"
  by (simp add: new_events_def run_defs io_defs stub_defs token_defs destructure_message_def)

text \<open>
  C2, amended. For every admitted request, if the relay call to the upstream generation
  service fails by raising (the \<^verbatim>\<open>fetch\<close> call rejects, as on a network failure or a
  timeout) or by returning content that cannot be parsed (\<^verbatim>\<open>json()\<close> raises), the
  handler responds with status 500 and the record step is not executed. The HTTP status
  of the upstream's response is not inspected.
\<close>

theorem relay_failure_responds_500:
  assumes "req_method req = ''POST''"
    and "verifyIdToken e (bearer_token req) = Inr d"
    and "rateLimiter_limit e (uid d) (rate_store w) = (Inr lr, rs)"
    and "success lr"
    and "destructure_message (req_body req) = Inr message"
    and "relay_outcome (fetch e (dify_request e (uid d) message)) = Inl err"
  shows "new_events e req w =
      [CallVerifyIdToken (bearer_token req), CallLimit (uid d),
       CallFetch (dify_request e (uid d) message),
       ConsoleError ''Error in chat API:'' err,
       Respond 500 (error_body ''Internal server error'')]
    \<and> statuses (new_events e req w) = [500]
    \<and> filter is_record (new_events e req w) = []
    \<and> chats (run e req w) = chats w"
proof (cases "fetch e (dify_request e (uid d) message)")
  case (Inl err')
  with assms(6) have "fetch e (dify_request e (uid d) message) = Inl err"
    by (simp add: relay_outcome_def)
  from run_fetch_raises [OF assms(1-5) this] show ?thesis
    by (simp add: new_events_def internal_error_def)
next
  case (Inr difyResponse)
  with assms(6) have "resp_json difyResponse = Inl err"
    by (simp add: relay_outcome_def)
  from run_json_raises [OF assms(1-5) Inr this] show ?thesis
    by (simp add: new_events_def internal_error_def)
qed

theorem relay_failure_responds_500_witness:
  "relay_outcome (Inl (Thrown ''ETIMEDOUT'')) = Inl (Thrown ''ETIMEDOUT'')
   \<and> statuses (new_events (stub_env (Inr u1) True (Inl (Thrown ''ETIMEDOUT'')) None)
        (post_hello (Some ''Bearer tok'')) w0) = [500]
   \<and> filter is_record (new_events (stub_env (Inr u1) True (Inl (Thrown ''ETIMEDOUT'')) None)
        (post_hello (Some ''Bearer tok'')) w0) = []
   \<and> relay_outcome (Inr \<lparr>resp_status = 200, resp_json = Inl (Thrown ''SyntaxError'')\<rparr>)
       = Inl (Thrown ''SyntaxError'')
   \<and> statuses (new_events
        (stub_env (Inr u1) True
           (Inr \<lparr>resp_status = 200, resp_json = Inl (Thrown ''SyntaxError'')\<rparr>) None)
        (post_hello (Some ''Bearer tok'')) w0) = [500]
   \<and> filter is_record (new_events
        (stub_env (Inr u1) True
           (Inr \<lparr>resp_status = 200, resp_json = Inl (Thrown ''SyntaxError'')\<rparr>) None)
        (post_hello (Some ''Bearer tok'')) w0) = []"
  using relay_failure_responds_500 [of "post_hello (Some ''Bearer tok'')"
      "stub_env (Inr u1) True (Inl (Thrown ''ETIMEDOUT'')) None" u1 w0
      "\<lparr>success = True, remaining = 0\<rparr>" "rate_store w0" "Some (JStr ''hello'')"
      "Thrown ''ETIMEDOUT''"]
    relay_failure_responds_500 [of "post_hello (Some ''Bearer tok'')"
      "stub_env (Inr u1) True
         (Inr \<lparr>resp_status = 200, resp_json = Inl (Thrown ''SyntaxError'')\<rparr>) None" u1 w0
      "\<lparr>success = True, remaining = 0\<rparr>" "rate_store w0" "Some (JStr ''hello'')"
      "Thrown ''SyntaxError''"]
  by (simp add: stub_defs token_defs destructure_message_def relay_outcome_def)

subsection \<open>C3: at most one Exchange Record\<close>

text \<open>
  C3. In every execution of the handler at most one Exchange Record is written: at most
  one call of \<^verbatim>\<open>addDoc\<close> is made and the collection grows by at most one document. No
  Exchange Record is written when the request is rejected as unauthenticated (the verify
  step raises) or as rate-limited (admission is denied).
\<close>

theorem at_most_one_record:
  "length (filter is_record (new_events e req w)) \<le> 1
   \<and> length (chats (run e req w)) \<le> length (chats w) + 1
   \<and> (unauthenticated e req \<longrightarrow>
        filter is_record (new_events e req w) = [] \<and> chats (run e req w) = chats w)
   \<and> (rate_limited e req w \<longrightarrow>
        filter is_record (new_events e req w) = [] \<and> chats (run e req w) = chats w)"
  by (cases rule: run_cases [of req e w])
    (simp_all add: new_events_def internal_error_def unauthenticated_def rate_limited_def)

theorem at_most_one_record_witness:
  "unauthenticated (stub_env (Inl (Thrown ''auth/id-token-expired'')) True upstream_hi None)
      (post_hello (Some ''Bearer tok''))
   \<and> chats (run (stub_env (Inl (Thrown ''auth/id-token-expired'')) True upstream_hi None)
        (post_hello (Some ''Bearer tok'')) w0) = []
   \<and> rate_limited (stub_env (Inr u1) False upstream_hi None) (post_hello (Some ''Bearer tok'')) w0
   \<and> chats (run (stub_env (Inr u1) False upstream_hi None) (post_hello (Some ''Bearer tok'')) w0) = []
   \<and> length (chats (run (stub_env (Inr u1) True upstream_hi None)
        (post_hello (Some ''Bearer tok'')) w0)) \<le> 1"
  using at_most_one_record [of "stub_env (Inl (Thrown ''auth/id-token-expired'')) True upstream_hi None"
      "post_hello (Some ''Bearer tok'')" w0]
    at_most_one_record [of "stub_env (Inr u1) False upstream_hi None"
      "post_hello (Some ''Bearer tok'')" w0]
    at_most_one_record [of "stub_env (Inr u1) True upstream_hi None"
      "post_hello (Some ''Bearer tok'')" w0]
  by (simp add: unauthenticated_def rate_limited_def stub_defs)

subsection \<open>C4: admission denied\<close>

text \<open>
  C4. For every authenticated request where the rate limiter's decision has
  \<^verbatim>\<open>success\<close> false, the handler responds with status 429 and performs no relay call
  and no record write: the execution is the verification, the limiter call and the
  response.
\<close>

theorem denied_responds_429:
  assumes "req_method req = ''POST''"
    and "verifyIdToken e (bearer_token req) = Inr d"
    and "rateLimiter_limit e (uid d) (rate_store w) = (Inr lr, rs)"
    and "\<not> success lr"
  shows "new_events e req w =
      [CallVerifyIdToken (bearer_token req), CallLimit (uid d),
       Respond 429 (error_body ''Rate limit exceeded'')]
    \<and> statuses (new_events e req w) = [429]
    \<and> filter is_relay (new_events e req w) = []
    \<and> filter is_record (new_events e req w) = []
    \<and> chats (run e req w) = chats w"
  using assms by (simp add: new_events_def run_denied)

theorem denied_responds_429_witness:
  "req_method (post_hello (Some ''Bearer tok'')) = ''POST''
   \<and> verifyIdToken (stub_env (Inr u1) False upstream_hi None)
        (bearer_token (post_hello (Some ''Bearer tok''))) = Inr u1
   \<and> \<not> success \<lparr>success = False, remaining = 0\<rparr>
   \<and> new_events (stub_env (Inr u1) False upstream_hi None) (post_hello (Some ''Bearer tok'')) w0 =
      [CallVerifyIdToken (Some ''tok''), CallLimit ''u1'',
       Respond 429 (JObj [(''error'', JStr ''Rate limit exceeded'')])]"
  using denied_responds_429 [of "post_hello (Some ''Bearer tok'')"
      "stub_env (Inr u1) False upstream_hi None" u1 w0
      "\<lparr>success = False, remaining = 0\<rparr>" "rate_store w0"]
  by (simp add: stub_defs token_defs error_body_def)

subsection \<open>C5: a record step that fails\<close>

text \<open>
  C5. For every request where the relay succeeds (the upstream's body parses to
  \<open>difyData\<close>, whose \<^verbatim>\<open>answer\<close> is read) but the persistence write fails, the handler
  still responds with status 200 carrying the relay's answer, the body \<open>difyData\<close>. The
  failure of the write goes to the console and to no response: the one response sent is
  the 200.
\<close>

theorem persistence_failure_not_surfaced:
  assumes "req_method req = ''POST''"
    and "verifyIdToken e (bearer_token req) = Inr d"
    and "rateLimiter_limit e (uid d) (rate_store w) = (Inr lr, rs)"
    and "success lr"
    and "destructure_message (req_body req) = Inr message"
    and "fetch e (dify_request e (uid d) message) = Inr difyResponse"
    and "resp_json difyResponse = Inr difyData"
    and "get_prop difyData ''answer'' = Inr answer"
    and "addDoc e (chat_record (uid d) message answer) = Some err"
  shows "new_events e req w =
      [CallVerifyIdToken (bearer_token req), CallLimit (uid d),
       CallFetch (dify_request e (uid d) message),
       CallAddDoc (chat_record (uid d) message answer),
       ConsoleError ''Error saving chat to Firestore:'' err,
       Respond 200 difyData]
    \<and> statuses (new_events e req w) = [200]
    \<and> filter is_response (new_events e req w) = [Respond 200 difyData]"
  using run_save_raises [OF assms] by (simp add: new_events_def)

theorem persistence_failure_not_surfaced_witness:
  "addDoc (stub_env (Inr u1) True upstream_hi (Some (Thrown ''unavailable'')))
      (chat_record ''u1'' (Some (JStr ''hello'')) (Some (JStr ''hi'')))
     = Some (Thrown ''unavailable'')
   \<and> filter is_response (new_events (stub_env (Inr u1) True upstream_hi (Some (Thrown ''unavailable'')))
        (post_hello (Some ''Bearer tok'')) w0)
     = [Respond 200 (JObj [(''answer'', JStr ''hi'')])]
   \<and> statuses (new_events (stub_env (Inr u1) True upstream_hi (Some (Thrown ''unavailable'')))
        (post_hello (Some ''Bearer tok'')) w0) = [200]"
  using persistence_failure_not_surfaced [of "post_hello (Some ''Bearer tok'')"
      "stub_env (Inr u1) True upstream_hi (Some (Thrown ''unavailable''))" u1 w0
      "\<lparr>success = True, remaining = 0\<rparr>" "rate_store w0" "Some (JStr ''hello'')"
      "\<lparr>resp_status = 200, resp_json = Inr (JObj [(''answer'', JStr ''hi'')])\<rparr>"
      "JObj [(''answer'', JStr ''hi'')]" "Some (JStr ''hi'')" "Thrown ''unavailable''"]
  by (simp add: stub_defs token_defs destructure_message_def)

subsection \<open>C6: the round trip\<close>

text \<open>
  C6. Given a request with message "hello" from the verified subject "u1", an upstream
  that returns \<^verbatim>\<open>{answer: "hi"}\<close> and a permitting rate limiter, the one response of the
  handler is a 200 whose body is the upstream's, with answer "hi", and exactly one record
  write is made, of the Exchange Record with userId "u1", message "hello", response "hi"
  and the server timestamp; when the store accepts the write, that record is the one
  document appended to the collection.
\<close>

theorem round_trip:
  assumes "req_method req = ''POST''"
    and "verifyIdToken e (bearer_token req) = Inr d"
    and "uid d = ''u1''"
    and "rateLimiter_limit e (uid d) (rate_store w) = (Inr lr, rs)"
    and "success lr"
    and "destructure_message (req_body req) = Inr (Some (JStr ''hello''))"
    and "fetch e (dify_request e ''u1'' (Some (JStr ''hello''))) = Inr difyResponse"
    and "resp_json difyResponse = Inr (JObj [(''answer'', JStr ''hi'')])"
  shows "filter is_response (new_events e req w) = [Respond 200 (JObj [(''answer'', JStr ''hi'')])]
    \<and> get_prop (JObj [(''answer'', JStr ''hi'')]) ''answer'' = Inr (Some (JStr ''hi''))
    \<and> filter is_record (new_events e req w)
        = [CallAddDoc (chat_record ''u1'' (Some (JStr ''hello'')) (Some (JStr ''hi'')))]
    \<and> (addDoc e (chat_record ''u1'' (Some (JStr ''hello'')) (Some (JStr ''hi''))) = None
        \<longrightarrow> chats (run e req w)
            = chats w @ [chat_record ''u1'' (Some (JStr ''hello'')) (Some (JStr ''hi''))])"
proof -
  have ans: "get_prop (JObj [(''answer'', JStr ''hi'')]) ''answer'' = Inr (Some (JStr ''hi''))"
    by simp
  note pre = assms(1,2,4,5,6) assms(7) [folded assms(3)] assms(8) ans
  show ?thesis
  proof (cases "addDoc e (chat_record (uid d) (Some (JStr ''hello'')) (Some (JStr ''hi'')))")
    case None
    from run_saved [OF pre None] show ?thesis
      by (simp add: new_events_def assms(3))
  next
    case (Some err)
    from run_save_raises [OF pre Some] Some show ?thesis
      by (simp add: new_events_def assms(3))
  qed
qed

theorem round_trip_witness:
  "filter is_response (new_events (stub_env (Inr u1) True upstream_hi None)
        (post_hello (Some ''Bearer tok'')) w0)
     = [Respond 200 (JObj [(''answer'', JStr ''hi'')])]
   \<and> chats (run (stub_env (Inr u1) True upstream_hi None) (post_hello (Some ''Bearer tok'')) w0)
     = [\<lparr>doc_userId = ''u1'', doc_message = Some (JStr ''hello''),
         doc_response = Some (JStr ''hi''), doc_timestamp = ServerTimestamp\<rparr>]"
  using round_trip [of "post_hello (Some ''Bearer tok'')"
      "stub_env (Inr u1) True upstream_hi None" u1 w0
      "\<lparr>success = True, remaining = 0\<rparr>" "rate_store w0"
      "\<lparr>resp_status = 200, resp_json = Inr (JObj [(''answer'', JStr ''hi'')])\<rparr>"]
  by (simp add: stub_defs token_defs destructure_message_def chat_record_def)

subsection \<open>C7: the admission call and the quota\<close>

text \<open>
  C7. With the counter of the rate limiter as the specification describes it, for every
  request that passes verification the shared counter of the subject is incremented
  exactly once, by the one admission call, and no other counter changes: whatever the
  quota and the count were (admission granted or denied), and whatever the relay and the
  record step do afterwards. A relay that fails has consumed one slot of the subject's
  quota.
\<close>

theorem admission_consumes_one_slot:
  assumes "rateLimiter_limit e = slidingWindow_limit tokens"
    and "req_method req = ''POST''"
    and "verifyIdToken e (bearer_token req) = Inr d"
  shows "rate_store (run e req w) = (rate_store w)(uid d := rate_store w (uid d) + 1)
    \<and> filter is_limit (new_events e req w) = [CallLimit (uid d)]"
  using run_limit_once [OF assms(2,3), of w] assms(1)
  by (simp add: slidingWindow_limit_def Let_def)

theorem admission_consumes_one_slot_witness:
  "statuses (new_events
      ((stub_env (Inr u1) True (Inl (Thrown ''ETIMEDOUT'')) None)
         \<lparr>rateLimiter_limit := slidingWindow_limit 5\<rparr>)
      (post_hello (Some ''Bearer tok'')) (w_count 2)) = [500]
   \<and> rate_store (run
      ((stub_env (Inr u1) True (Inl (Thrown ''ETIMEDOUT'')) None)
         \<lparr>rateLimiter_limit := slidingWindow_limit 5\<rparr>)
      (post_hello (Some ''Bearer tok'')) (w_count 2)) ''u1'' = 3
   \<and> statuses (new_events
      ((stub_env (Inr u1) True upstream_hi None)\<lparr>rateLimiter_limit := slidingWindow_limit 5\<rparr>)
      (post_hello (Some ''Bearer tok'')) (w_count 5)) = [429]
   \<and> rate_store (run
      ((stub_env (Inr u1) True upstream_hi None)\<lparr>rateLimiter_limit := slidingWindow_limit 5\<rparr>)
      (post_hello (Some ''Bearer tok'')) (w_count 5)) ''u1'' = 6"
  using admission_consumes_one_slot [of
      "(stub_env (Inr u1) True (Inl (Thrown ''ETIMEDOUT'')) None)
         \<lparr>rateLimiter_limit := slidingWindow_limit 5\<rparr>"
      5 "post_hello (Some ''Bearer tok'')" u1 "w_count 2"]
    admission_consumes_one_slot [of
      "(stub_env (Inr u1) True upstream_hi None)\<lparr>rateLimiter_limit := slidingWindow_limit 5\<rparr>"
      5 "post_hello (Some ''Bearer tok'')" u1 "w_count 5"]
  by (simp add: new_events_def run_defs io_defs stub_defs token_defs destructure_message_def
      slidingWindow_limit_def)

subsection \<open>C8: a method other than POST\<close>

text \<open>
  C8. For every request whose method is not POST, the handler responds with status 405
  before any collaborator is invoked: the only event of the execution is the response,
  so there is no verification, no rate-limiter call, no relay call and no record write,
  and the counters and the collection are unchanged.
\<close>

theorem non_post_responds_405:
  assumes "req_method req \<noteq> ''POST''"
  shows "new_events e req w = [Respond 405 (error_body ''Method not allowed'')]
    \<and> statuses (new_events e req w) = [405]
    \<and> filter is_verify (new_events e req w) = []
    \<and> filter is_limit (new_events e req w) = []
    \<and> filter is_relay (new_events e req w) = []
    \<and> filter is_record (new_events e req w) = []
    \<and> rate_store (run e req w) = rate_store w
    \<and> chats (run e req w) = chats w"
  using assms by (simp add: new_events_def run_not_post)

theorem non_post_responds_405_witness:
  "req_method get_request \<noteq> ''POST''
   \<and> new_events (stub_env (Inr u1) True upstream_hi None) get_request w0
       = [Respond 405 (JObj [(''error'', JStr ''Method not allowed'')])]
   \<and> trace (run (stub_env (Inr u1) True upstream_hi None) get_request w0)
       = [Respond 405 (JObj [(''error'', JStr ''Method not allowed'')])]"
  using non_post_responds_405 [of get_request "stub_env (Inr u1) True upstream_hi None" w0]
    trace_run [of "stub_env (Inr u1) True upstream_hi None" get_request w0]
  by (simp add: get_request_def w0_def error_body_def)

subsection \<open>C9: no validation of the message\<close>

text \<open>
  C9 as stated, that every authenticated and admitted request is relayed, fails for a
  request without a body object: on the JSON body \<^verbatim>\<open>null\<close> the destructuring
  \<^verbatim>\<open>const { message } = req.body\<close> raises a TypeError, no relay call is made and the
  response is 500.
\<close>

theorem null_body_not_relayed_counterexample:
  "req_method (post_body (Some JNull)) = ''POST''
   \<and> verifyIdToken (stub_env (Inr u1) True upstream_hi None)
        (bearer_token (post_body (Some JNull))) = Inr u1
   \<and> rateLimiter_limit (stub_env (Inr u1) True upstream_hi None) (uid u1) (rate_store w0)
       = (Inr \<lparr>success = True, remaining = 0\<rparr>, rate_store w0)
   \<and> filter is_relay (new_events (stub_env (Inr u1) True upstream_hi None)
        (post_body (Some JNull)) w0) = []
   \<and> statuses (new_events (stub_env (Inr u1) True upstream_hi None)
        (post_body (Some JNull)) w0) = [500]"
  by (simp add: new_events_def run_defs io_defs stub_defs token_defs destructure_message_def)

text \<open>
  C9, amended. For every authenticated and admitted request whose body is neither
  \<^verbatim>\<open>undefined\<close> nor \<^verbatim>\<open>null\<close> (the destructuring gives \<open>message\<close>, which may be
  \<^verbatim>\<open>undefined\<close> or the empty string), the handler relays the message to the upstream
  service: the first three events of the execution are the verification, the admission
  call and the relay call, so nothing rejects an empty or missing message before the
  relay call. The relay call is the only one, and its body carries the message as
  \<^verbatim>\<open>query\<close> (no \<^verbatim>\<open>query\<close> at all for a missing message) and the subject as \<^verbatim>\<open>user\<close>.
\<close>

theorem relays_without_validation:
  assumes "req_method req = ''POST''"
    and "verifyIdToken e (bearer_token req) = Inr d"
    and "rateLimiter_limit e (uid d) (rate_store w) = (Inr lr, rs)"
    and "success lr"
    and "destructure_message (req_body req) = Inr message"
  shows "take 3 (new_events e req w) =
      [CallVerifyIdToken (bearer_token req), CallLimit (uid d),
       CallFetch (dify_request e (uid d) message)]
    \<and> filter is_relay (new_events e req w) = [CallFetch (dify_request e (uid d) message)]
    \<and> fetch_body (dify_request e (uid d) message) =
        JObj ((case message of None \<Rightarrow> [] | Some m \<Rightarrow> [(''query'', m)])
              @ [(''user'', JStr (uid d))])"
proof -
  have body: "fetch_body (dify_request e (uid d) message) =
      JObj ((case message of None \<Rightarrow> [] | Some m \<Rightarrow> [(''query'', m)])
            @ [(''user'', JStr (uid d))])"
    by (simp add: dify_request_def)
  have "take 3 (new_events e req w) =
      [CallVerifyIdToken (bearer_token req), CallLimit (uid d),
       CallFetch (dify_request e (uid d) message)]
    \<and> filter is_relay (new_events e req w) = [CallFetch (dify_request e (uid d) message)]"
  proof (cases "fetch e (dify_request e (uid d) message)")
    case (Inl err)
    from run_fetch_raises [OF assms Inl] show ?thesis
      by (simp add: new_events_def internal_error_def)
  next
    case fetched: (Inr difyResponse)
    show ?thesis
    proof (cases "resp_json difyResponse")
      case (Inl err)
      from run_json_raises [OF assms fetched Inl] show ?thesis
        by (simp add: new_events_def internal_error_def)
    next
      case parsed: (Inr difyData)
      show ?thesis
      proof (cases "get_prop difyData ''answer''")
        case (Inl err)
        from run_answer_raises [OF assms fetched parsed Inl] show ?thesis
          by (simp add: new_events_def internal_error_def)
      next
        case ans: (Inr answer)
        show ?thesis
        proof (cases "addDoc e (chat_record (uid d) message answer)")
          case None
          from run_saved [OF assms fetched parsed ans None] show ?thesis
            by (simp add: new_events_def)
        next
          case (Some err)
          from run_save_raises [OF assms fetched parsed ans Some] show ?thesis
            by (simp add: new_events_def)
        qed
      qed
    qed
  qed
  with body show ?thesis by simp
qed

theorem relays_without_validation_witness:
  "destructure_message (req_body (post_body (Some (JObj [])))) = Inr None
   \<and> filter is_relay (new_events (stub_env (Inr u1) True upstream_hi None)
        (post_body (Some (JObj []))) w0)
     = [CallFetch (dify_request (stub_env (Inr u1) True upstream_hi None) ''u1'' None)]
   \<and> fetch_body (dify_request (stub_env (Inr u1) True upstream_hi None) ''u1'' None)
     = JObj [(''user'', JStr ''u1'')]
   \<and> destructure_message (req_body (post_body (Some (JObj [(''message'', JStr '''')]))))
     = Inr (Some (JStr ''''))
   \<and> filter is_relay (new_events (stub_env (Inr u1) True upstream_hi None)
        (post_body (Some (JObj [(''message'', JStr '''')]))) w0)
     = [CallFetch (dify_request (stub_env (Inr u1) True upstream_hi None) ''u1''
          (Some (JStr '''')))]
   \<and> fetch_body (dify_request (stub_env (Inr u1) True upstream_hi None) ''u1'' (Some (JStr '''')))
     = JObj [(''query'', JStr ''''), (''user'', JStr ''u1'')]"
  using relays_without_validation [of "post_body (Some (JObj []))"
      "stub_env (Inr u1) True upstream_hi None" u1 w0
      "\<lparr>success = True, remaining = 0\<rparr>" "rate_store w0" None]
    relays_without_validation [of "post_body (Some (JObj [(''message'', JStr '''')]))"
      "stub_env (Inr u1) True upstream_hi None" u1 w0
      "\<lparr>success = True, remaining = 0\<rparr>" "rate_store w0" "Some (JStr '''')"]
  by (simp add: stub_defs token_defs destructure_message_def)

subsection \<open>C10: one response\<close>

text \<open>
  C10. Every execution of the handler sends exactly one HTTP response, never zero and
  never two: on each path (a method other than POST, a denial by the rate limiter,
  success, any error raised) the trace gains exactly one response, it is the last event
  of the execution, and its status is 200, 405, 429 or 500.
\<close>

theorem exactly_one_response:
  "length (filter is_response (new_events e req w)) = 1
   \<and> is_response (last (new_events e req w))
   \<and> trace (run e req w) = trace w @ new_events e req w
   \<and> statuses (new_events e req w) \<in> {[200], [405], [429], [500]}"
  by (cases rule: run_cases [of req e w]) (simp_all add: new_events_def internal_error_def)

theorem exactly_one_response_witness:
  "statuses (new_events (stub_env (Inr u1) True upstream_hi None)
      (post_hello (Some ''Bearer tok'')) w0) = [200]
   \<and> length (filter is_response (new_events (stub_env (Inr u1) True upstream_hi None)
      (post_hello (Some ''Bearer tok'')) w0)) = 1"
  using exactly_one_response [of "stub_env (Inr u1) True upstream_hi None"
      "post_hello (Some ''Bearer tok'')" w0]
  by (simp add: new_events_def run_defs io_defs stub_defs token_defs destructure_message_def)

end
